theory Spec2Isabelle
  imports Complex_Main
begin

section \<open>JSON values and HTTP responses\<close>

text \<open>
  Request bodies and response bodies are JSON. A JSON number is a finite double, hence a
  rational; the handlers never compute with body values, they only pass them on.
  A JSON object is an association list with distinct keys, read with \<open>map_of\<close>.
\<close>

datatype jval =
    JNull
  | JBool bool
  | JNum rat
  | JStr string
  | JArr "jval list"
  | JObj "(string \<times> jval) list"

type_synonym json_obj = "(string \<times> jval) list"

record response =
  status :: nat
  body :: jval

definition json_ok :: "jval \<Rightarrow> response" where
  \<comment> \<open>\<open>res.json(v)\<close>: the status stays at its default, 200\<close>
  "json_ok v = \<lparr>status = 200, body = v\<rparr>"

definition json_error :: "nat \<Rightarrow> string \<Rightarrow> response" where
  \<comment> \<open>\<open>res.status(code).json({ error: msg })\<close>\<close>
  "json_error code msg = \<lparr>status = code, body = JObj [(''error'', JStr msg)]\<rparr>"

section \<open>JavaScript's parseInt\<close>

text \<open>
  \<open>parseInt(x)\<close> with no radix: convert \<open>x\<close> to a string, skip leading white space, read
  an optional sign, switch to radix 16 after a \<open>0x\<close> or \<open>0X\<close> prefix, and read the longest
  run of digits of the radix. No digit gives NaN, here \<open>None\<close>. Strings are the bytes of
  the UTF-8 text, so a white space character of JavaScript is one to three bytes.
  Integers are unbounded, where JavaScript rounds above \<open>2^53\<close>.
\<close>

definition is_ws :: "char \<Rightarrow> bool" where
  "is_ws c = (c \<in> set [CHR 0x09, CHR 0x0A, CHR 0x0B, CHR 0x0C, CHR 0x0D, CHR 0x20])"

definition ws_prefix :: "string \<Rightarrow> nat" where
  \<comment> \<open>the number of bytes of the white space or line terminator a string starts with,
      0 if it starts with none: the ASCII ones, U+00A0, U+1680, U+2000 to U+200A, U+2028,
      U+2029, U+202F, U+205F, U+3000 and U+FEFF in UTF-8\<close>
  "ws_prefix s =
     (if s \<noteq> [] \<and> is_ws (hd s) then 1
      else if take 2 s = [CHR 0xC2, CHR 0xA0] then 2
      else if take 3 s \<in> set
          [[CHR 0xE1, CHR 0x9A, CHR 0x80],
           [CHR 0xE2, CHR 0x80, CHR 0x80], [CHR 0xE2, CHR 0x80, CHR 0x81],
           [CHR 0xE2, CHR 0x80, CHR 0x82], [CHR 0xE2, CHR 0x80, CHR 0x83],
           [CHR 0xE2, CHR 0x80, CHR 0x84], [CHR 0xE2, CHR 0x80, CHR 0x85],
           [CHR 0xE2, CHR 0x80, CHR 0x86], [CHR 0xE2, CHR 0x80, CHR 0x87],
           [CHR 0xE2, CHR 0x80, CHR 0x88], [CHR 0xE2, CHR 0x80, CHR 0x89],
           [CHR 0xE2, CHR 0x80, CHR 0x8A], [CHR 0xE2, CHR 0x80, CHR 0xA8],
           [CHR 0xE2, CHR 0x80, CHR 0xA9], [CHR 0xE2, CHR 0x80, CHR 0xAF],
           [CHR 0xE2, CHR 0x81, CHR 0x9F], [CHR 0xE3, CHR 0x80, CHR 0x80],
           [CHR 0xEF, CHR 0xBB, CHR 0xBF]] then 3
      else 0)"

function skip_ws :: "string \<Rightarrow> string" where
  "skip_ws s = (if ws_prefix s = 0 then s else skip_ws (drop (ws_prefix s) s))"
  by pat_completeness auto
termination
proof (relation "measure length")
  show "wf (measure length)" by simp
next
  fix s :: string
  assume "ws_prefix s \<noteq> 0"
  then have "s \<noteq> []" by (auto simp: ws_prefix_def)
  with \<open>ws_prefix s \<noteq> 0\<close> show "(drop (ws_prefix s) s, s) \<in> measure length" by simp
qed

declare skip_ws.simps [simp del]

definition digit_val :: "char \<Rightarrow> nat option" where
  "digit_val c =
     (let n = (of_char c :: nat) in
      if 48 \<le> n \<and> n \<le> 57 then Some (n - 48)
      else if 97 \<le> n \<and> n \<le> 122 then Some (n - 87)
      else if 65 \<le> n \<and> n \<le> 90 then Some (n - 55)
      else None)"

definition is_digit :: "nat \<Rightarrow> char \<Rightarrow> bool" where
  "is_digit radix c = (case digit_val c of None \<Rightarrow> False | Some d \<Rightarrow> d < radix)"

definition digits_value :: "nat \<Rightarrow> string \<Rightarrow> nat" where
  "digits_value radix ds = foldl (\<lambda>acc c. acc * radix + the (digit_val c)) 0 ds"

definition parseInt :: "string \<Rightarrow> int option" where
  "parseInt input =
     (let s = skip_ws input;
          neg = (s \<noteq> [] \<and> hd s = CHR ''-'');
          s = (if s \<noteq> [] \<and> (hd s = CHR ''+'' \<or> hd s = CHR ''-'') then tl s else s);
          hex = (take 2 s = ''0x'' \<or> take 2 s = ''0X'');
          radix = (if hex then 16 else 10);
          s = (if hex then drop 2 s else s);
          ds = takeWhile (is_digit radix) s
      in if ds = [] then None
         else Some ((if neg then - 1 else 1) * int (digits_value radix ds)))"

definition to_string :: "string option \<Rightarrow> string" where
  \<comment> \<open>ToString of \<open>req.query.page\<close>: a missing parameter is \<open>undefined\<close>; \<open>Some s\<close> is the
      text of one that is there (for a repeated one, its values joined by commas)\<close>
  "to_string q = (case q of None \<Rightarrow> ''undefined'' | Some s \<Rightarrow> s)"

definition parse_page :: "string option \<Rightarrow> int" where
  \<comment> \<open>\<open>parseInt(req.query.page) || 1\<close>: NaN and 0 are falsy\<close>
  "parse_page q =
     (case parseInt (to_string q) of
        None \<Rightarrow> 1
      | Some n \<Rightarrow> if n = 0 then 1 else n)"

definition math_ceil_div :: "int \<Rightarrow> int \<Rightarrow> int" where
  \<comment> \<open>\<open>Math.ceil(a / b)\<close>\<close>
  "math_ceil_div a b = \<lceil>rat_of_int a / rat_of_int b\<rceil>"

fun dec :: "nat \<Rightarrow> string" where
  \<comment> \<open>the decimal text of a count, as the driver returns a \<open>bigint\<close>\<close>
  "dec n = (if n < 10 then [char_of (48 + n)] else dec (n div 10) @ [char_of (48 + n mod 10)])"

declare dec.simps [simp del]

section \<open>The clients table (PostgreSQL variant)\<close>

text \<open>
  One row of the table created by \<open>createTable\<close>. A cell of a data column holds the value
  the driver sent for it, SQL NULL being \<open>JNull\<close>; timestamps are readings of the
  database clock.
\<close>

record client =
  client_id :: int
  full_name :: jval
  email :: jval
  phone :: jval
  location :: jval
  service_type :: jval
  serial_number :: jval
  price :: jval
  supporter :: jval
  has_bonus :: jval
  created_at :: nat
  updated_at :: nat

datatype qkind = SelectPage | CountAll | SelectById | Insert | Update | Delete

record pg_state =
  clients :: "client list"
  clients_id_seq :: int
  queries :: "qkind list"

definition row_json :: "client \<Rightarrow> jval" where
  "row_json r = JObj
     [(''id'', JNum (of_int (client_id r))),
      (''full_name'', full_name r),
      (''email'', email r),
      (''phone'', phone r),
      (''location'', location r),
      (''service_type'', service_type r),
      (''serial_number'', serial_number r),
      (''price'', price r),
      (''supporter'', supporter r),
      (''has_bonus'', has_bonus r),
      (''created_at'', JNum (of_nat (created_at r))),
      (''updated_at'', JNum (of_nat (updated_at r)))]"


definition order_desc :: "client list \<Rightarrow> client list" where
  \<comment> \<open>\<open>ORDER BY created_at DESC\<close>; rows with equal keys come in one fixed order\<close>
  "order_desc rs = rev (sort_key created_at rs)"

definition int4in :: "string \<Rightarrow> int option" where
  \<comment> \<open>the text of a parameter compared with the \<open>integer\<close> column \<open>id\<close>\<close>
  "int4in input =
     (let s = dropWhile is_ws input;
          neg = (s \<noteq> [] \<and> hd s = CHR ''-'');
          s = (if s \<noteq> [] \<and> (hd s = CHR ''+'' \<or> hd s = CHR ''-'') then tl s else s);
          ds = takeWhile (is_digit 10) s;
          rest = dropWhile (is_digit 10) s;
          v = (if neg then - 1 else 1) * int (digits_value 10 ds)
      in if ds = [] \<or> \<not> list_all is_ws rest then None
         else if - (2 ^ 31) \<le> v \<and> v < 2 ^ 31 then Some v
         else None)"

definition ran :: "qkind \<Rightarrow> pg_state \<Rightarrow> pg_state" where
  "ran k s = s\<lparr>queries := queries s @ [k]\<rparr>"

text \<open>
  Each function below is one \<open>pool.query\<close> call with its SQL text. The first argument is
  a failure of the call that the table does not explain (no connection, a timeout, a
  value out of the range or the syntax of its column or of \<open>OFFSET\<close>): \<open>Some e\<close> makes the
  call throw \<open>e\<close> and leaves the table as it was. The failures that the statement and
  the schema of \<open>createTable\<close> decide are part of the functions: a negative \<open>OFFSET\<close>, an
  \<open>id\<close> that is no integer, a NULL \<open>full_name\<close>, a used-up sequence.
\<close>

definition select_page ::
  "string option \<Rightarrow> int \<Rightarrow> int \<Rightarrow> pg_state \<Rightarrow> (string + client list) \<times> pg_state" where
  \<comment> \<open>\<open>SELECT * FROM clients ORDER BY created_at DESC LIMIT $1 OFFSET $2\<close>\<close>
  "select_page fault limit offset s =
     (let s' = ran SelectPage s in
      case fault of
        Some e \<Rightarrow> (Inl e, s')
      | None \<Rightarrow>
          if limit < 0 then (Inl ''LIMIT must not be negative'', s')
          else if offset < 0 then (Inl ''OFFSET must not be negative'', s')
          else (Inr (take (nat limit) (drop (nat offset) (order_desc (clients s)))), s'))"

definition count_all :: "string option \<Rightarrow> pg_state \<Rightarrow> (string + string) \<times> pg_state" where
  \<comment> \<open>\<open>SELECT COUNT(*) FROM clients\<close>; the driver returns the count as decimal text\<close>
  "count_all fault s =
     (let s' = ran CountAll s in
      case fault of
        Some e \<Rightarrow> (Inl e, s')
      | None \<Rightarrow> (Inr (dec (length (clients s))), s'))"

definition select_by_id ::
  "string option \<Rightarrow> string \<Rightarrow> pg_state \<Rightarrow> (string + client list) \<times> pg_state" where
  \<comment> \<open>\<open>SELECT * FROM clients WHERE id = $1\<close>\<close>
  "select_by_id fault idtxt s =
     (let s' = ran SelectById s in
      case fault of
        Some e \<Rightarrow> (Inl e, s')
      | None \<Rightarrow>
          (case int4in idtxt of
             None \<Rightarrow> (Inl ''invalid input syntax for type integer'', s')
           | Some i \<Rightarrow> (Inr (filter (\<lambda>r. client_id r = i) (clients s)), s')))"

definition new_row :: "int \<Rightarrow> nat \<Rightarrow> jval list \<Rightarrow> client" where
  "new_row i now ps =
     \<lparr>client_id = i, full_name = ps ! 0, email = ps ! 1, phone = ps ! 2, location = ps ! 3,
      service_type = ps ! 4, serial_number = ps ! 5, price = ps ! 6, supporter = ps ! 7,
      has_bonus = ps ! 8, created_at = now, updated_at = now\<rparr>"

definition insert_row ::
  "string option \<Rightarrow> nat \<Rightarrow> jval list \<Rightarrow> pg_state \<Rightarrow> (string + client list) \<times> pg_state" where
  \<comment> \<open>\<open>INSERT INTO clients (full_name, ..., has_bonus) VALUES ($1, ..., $9) RETURNING *\<close>:
      \<open>id\<close> is the next value of the sequence, both timestamps are the current one;
      a sequence value is used up also when the row is refused\<close>
  "insert_row fault now ps s =
     (let s' = ran Insert s in
      case fault of
        Some e \<Rightarrow> (Inl e, s')
      | None \<Rightarrow>
          (let i = clients_id_seq s; s'' = s'\<lparr>clients_id_seq := i + 1\<rparr> in
           if 2 ^ 31 \<le> i then (Inl ''nextval: reached maximum value of sequence'', s')
           else if ps ! 0 = JNull then (Inl ''null value in column full_name'', s'')
           else (Inr [new_row i now ps],
                 s''\<lparr>clients := clients s @ [new_row i now ps]\<rparr>)))"

definition set_row :: "nat \<Rightarrow> jval list \<Rightarrow> client \<Rightarrow> client" where
  "set_row now ps r =
     r\<lparr>full_name := ps ! 0, email := ps ! 1, phone := ps ! 2, location := ps ! 3,
       service_type := ps ! 4, serial_number := ps ! 5, price := ps ! 6, supporter := ps ! 7,
       has_bonus := ps ! 8, updated_at := now\<rparr>"

definition update_row ::
  "string option \<Rightarrow> nat \<Rightarrow> jval list \<Rightarrow> string \<Rightarrow> pg_state
     \<Rightarrow> (string + client list) \<times> pg_state" where
  \<comment> \<open>\<open>UPDATE clients SET full_name=$1, ..., has_bonus=$9, updated_at=NOW()
      WHERE id=$10 RETURNING *\<close>\<close>
  "update_row fault now ps idtxt s =
     (let s' = ran Update s in
      case fault of
        Some e \<Rightarrow> (Inl e, s')
      | None \<Rightarrow>
          (case int4in idtxt of
             None \<Rightarrow> (Inl ''invalid input syntax for type integer'', s')
           | Some i \<Rightarrow>
               if (\<exists>r \<in> set (clients s). client_id r = i) \<and> ps ! 0 = JNull
               then (Inl ''null value in column full_name'', s')
               else
                 (let rs = map (\<lambda>r. if client_id r = i then set_row now ps r else r) (clients s)
                  in (Inr (filter (\<lambda>r. client_id r = i) rs), s'\<lparr>clients := rs\<rparr>))))"

definition delete_row ::
  "string option \<Rightarrow> string \<Rightarrow> pg_state \<Rightarrow> (string + client list) \<times> pg_state" where
  \<comment> \<open>\<open>DELETE FROM clients WHERE id=$1 RETURNING *\<close>\<close>
  "delete_row fault idtxt s =
     (let s' = ran Delete s in
      case fault of
        Some e \<Rightarrow> (Inl e, s')
      | None \<Rightarrow>
          (case int4in idtxt of
             None \<Rightarrow> (Inl ''invalid input syntax for type integer'', s')
           | Some i \<Rightarrow>
               (Inr (filter (\<lambda>r. client_id r = i) (clients s)),
                s'\<lparr>clients := filter (\<lambda>r. client_id r \<noteq> i) (clients s)\<rparr>)))"


section \<open>The handlers of the PostgreSQL variant\<close>

definition check_mark :: string where
  \<comment> \<open>the UTF-8 bytes of U+2705, which starts every success message\<close>
  "check_mark = [CHR 0xE2, CHR 0x9C, CHR 0x85]"

definition mutable_fields :: "string list" where
  "mutable_fields =
     [''full_name'', ''email'', ''phone'', ''location'', ''service_type'',
      ''serial_number'', ''price'', ''supporter'', ''has_bonus'']"

definition field :: "json_obj \<Rightarrow> string \<Rightarrow> jval" where
  \<comment> \<open>a destructured property: a missing one is \<open>undefined\<close>, which the driver sends
      as NULL\<close>
  "field b k = (case map_of b k of None \<Rightarrow> JNull | Some v \<Rightarrow> v)"

definition fields_of :: "json_obj \<Rightarrow> jval list" where
  \<comment> \<open>\<open>[full_name, email, phone, location, service_type, serial_number, price,
      supporter, has_bonus]\<close>\<close>
  "fields_of b = map (field b) mutable_fields"

definition with_client :: "string \<Rightarrow> client list \<Rightarrow> jval" where
  \<comment> \<open>\<open>{ message, client: result.rows[0] }\<close>; an undefined property is not serialised\<close>
  "with_client msg rs =
     (case rs of
        [] \<Rightarrow> JObj [(''message'', JStr (check_mark @ msg))]
      | r # _ \<Rightarrow> JObj [(''message'', JStr (check_mark @ msg)), (''client'', row_json r)])"

definition json_int :: "int option \<Rightarrow> jval" where
  \<comment> \<open>a number in a JSON response: NaN is serialised as null\<close>
  "json_int v = (case v of None \<Rightarrow> JNull | Some n \<Rightarrow> JNum (of_int n))"

definition list_clients ::
  "string option \<Rightarrow> string option \<Rightarrow> string option \<Rightarrow> pg_state \<Rightarrow> response \<times> pg_state" where
  "list_clients fault1 fault2 q s =
     (let page = parse_page q;
          limit = 10;
          offset = (page - 1) * limit
      in case select_page fault1 limit offset s of
           (Inl err, s1) \<Rightarrow> (json_error 500 ''Failed to fetch clients'', s1)
         | (Inr rows, s1) \<Rightarrow>
             (case count_all fault2 s1 of
                (Inl err, s2) \<Rightarrow> (json_error 500 ''Failed to fetch clients'', s2)
              | (Inr cnt, s2) \<Rightarrow>
                  (let totalClients = parseInt cnt;
                       totalPages = map_option (\<lambda>t. math_ceil_div t limit) totalClients
                   in (json_ok (JObj
                         [(''data'', JArr (map row_json rows)),
                          (''currentPage'', JNum (of_int page)),
                          (''totalPages'', json_int totalPages),
                          (''totalClients'', json_int totalClients)]), s2))))"

definition get_client :: "string option \<Rightarrow> string \<Rightarrow> pg_state \<Rightarrow> response \<times> pg_state" where
  "get_client fault idtxt s =
     (case select_by_id fault idtxt s of
        (Inl err, s1) \<Rightarrow> (json_error 500 ''Failed to fetch client'', s1)
      | (Inr rows, s1) \<Rightarrow>
          (case rows of
             [] \<Rightarrow> (json_error 404 ''Client not found'', s1)
           | r # _ \<Rightarrow> (json_ok (row_json r), s1)))"

definition create_client ::
  "string option \<Rightarrow> nat \<Rightarrow> json_obj \<Rightarrow> pg_state \<Rightarrow> response \<times> pg_state" where
  "create_client fault now b s =
     (case insert_row fault now (fields_of b) s of
        (Inl err, s1) \<Rightarrow> (json_error 500 ''Failed to add client'', s1)
      | (Inr rows, s1) \<Rightarrow> (json_ok (with_client '' Client added successfully'' rows), s1))"

definition update_client ::
  "string option \<Rightarrow> nat \<Rightarrow> string \<Rightarrow> json_obj \<Rightarrow> pg_state \<Rightarrow> response \<times> pg_state" where
  "update_client fault now idtxt b s =
     (case update_row fault now (fields_of b) idtxt s of
        (Inl err, s1) \<Rightarrow> (json_error 500 ''Failed to update client'', s1)
      | (Inr rows, s1) \<Rightarrow>
          (case rows of
             [] \<Rightarrow> (json_error 404 ''Client not found'', s1)
           | _ # _ \<Rightarrow> (json_ok (with_client '' Client updated successfully'' rows), s1)))"

definition delete_client :: "string option \<Rightarrow> string \<Rightarrow> pg_state \<Rightarrow> response \<times> pg_state" where
  "delete_client fault idtxt s =
     (case delete_row fault idtxt s of
        (Inl err, s1) \<Rightarrow> (json_error 500 ''Failed to delete client'', s1)
      | (Inr rows, s1) \<Rightarrow>
          (case rows of
             [] \<Rightarrow> (json_error 404 ''Client not found'', s1)
           | _ # _ \<Rightarrow> (json_ok (with_client '' Client deleted successfully'' rows), s1)))"

definition health :: "nat \<Rightarrow> response" where
  \<comment> \<open>the timestamp is the reading of the server clock\<close>
  "health now = json_ok (JObj
     [(''message'', JStr (check_mark @ '' Smart Broadband Server is running!'')),
      (''timestamp'', JNum (of_nat now))])"

section \<open>The CORS gate and the request pipeline\<close>

definition allowedOrigins :: "string list" where
  "allowedOrigins =
     [''http://localhost:3000'', ''http://localhost:5173'',
      ''https://smart-broadband-3.vercel.app'']"

definition cors_origin :: "string list \<Rightarrow> string option \<Rightarrow> string + bool" where
  \<comment> \<open>the \<open>origin\<close> callback; \<open>!origin\<close> holds for a missing header and for an empty one\<close>
  "cors_origin allowed origin =
     (case origin of
        None \<Rightarrow> Inr True
      | Some orig \<Rightarrow>
          if orig = [] then Inr True
          else if orig \<in> set allowed then Inr True
          else Inl ''Not allowed by CORS'')"

datatype outcome = Rejected string | Responded response

definition cors_gate ::
  "string list \<Rightarrow> string option \<Rightarrow> ('st \<Rightarrow> response \<times> 'st) \<Rightarrow> 'st \<Rightarrow> outcome \<times> 'st" where
  \<comment> \<open>the middleware: an error of the callback goes to \<open>next(err)\<close> and the route's handler
      is not called\<close>
  "cors_gate allowed origin handler s =
     (case cors_origin allowed origin of
        Inl err \<Rightarrow> (Rejected err, s)
      | Inr _ \<Rightarrow> (case handler s of (resp, s') \<Rightarrow> (Responded resp, s')))"

text \<open>
  A request that reached the router: its method and path, the \<open>page\<close> parameter or the
  \<open>:id\<close> segment as text, and the body as \<open>express.json\<close> parsed it.
\<close>

datatype route =
    Health
  | ListClients "string option"
  | GetClient string
  | CreateClient json_obj
  | UpdateClient string json_obj
  | DeleteClient string

record ctx =
  clock :: nat
  fault1 :: "string option"
  fault2 :: "string option"

definition dispatch :: "ctx \<Rightarrow> route \<Rightarrow> pg_state \<Rightarrow> response \<times> pg_state" where
  "dispatch c r s =
     (case r of
        Health \<Rightarrow> (health (clock c), s)
      | ListClients q \<Rightarrow> list_clients (fault1 c) (fault2 c) q s
      | GetClient i \<Rightarrow> get_client (fault1 c) i s
      | CreateClient b \<Rightarrow> create_client (fault1 c) (clock c) b s
      | UpdateClient i b \<Rightarrow> update_client (fault1 c) (clock c) i b s
      | DeleteClient i \<Rightarrow> delete_client (fault1 c) i s)"

definition handle_request ::
  "ctx \<Rightarrow> string option \<Rightarrow> route \<Rightarrow> pg_state \<Rightarrow> outcome \<times> pg_state" where
  "handle_request c origin r s = cors_gate allowedOrigins origin (dispatch c r) s"

section \<open>Process start\<close>

datatype proc = Exited nat | Listening string

definition or_default :: "string option \<Rightarrow> string \<Rightarrow> string" where
  \<comment> \<open>\<open>process.env.X || d\<close>: an unset variable and an empty one are falsy\<close>
  "or_default v d = (case v of None \<Rightarrow> d | Some x \<Rightarrow> if x = [] then d else x)"

definition falsy :: "string option \<Rightarrow> bool" where
  "falsy v = (case v of None \<Rightarrow> True | Some x \<Rightarrow> x = [])"

definition start_pg :: "(string \<rightharpoonup> string) \<Rightarrow> string option \<Rightarrow> proc" where
  \<comment> \<open>\<open>src/server.js\<close>: the pool is built from \<open>DATABASE_URL\<close> whatever it is, an error of
      the connection test (the second argument) and of \<open>createTable\<close> is logged, and
      \<open>app.listen\<close> is reached\<close>
  "start_pg env connect_err = Listening (or_default (env ''PORT'') ''4000'')"

definition start_supabase :: "(string \<rightharpoonup> string) \<Rightarrow> proc" where
  \<comment> \<open>the Supabase variant: \<open>if (!SUPABASE_KEY) process.exit(1)\<close> comes before the
      application is built\<close>
  "start_supabase env =
     (if falsy (env ''SUPABASE_KEY'') then Exited 1
      else Listening (or_default (env ''PORT'') ''4000''))"

definition supabase_allowedOrigins :: "(string \<rightharpoonup> string) \<Rightarrow> string list" where
  "supabase_allowedOrigins env =
     [''http://localhost:3000'', ''http://localhost:5173'',
      or_default (env ''FRONTEND_URL'') ''http://localhost:5173'']"


section \<open>The handlers of the Supabase variant\<close>

text \<open>
  The second variant calls the Supabase client, which is not part of the repository.
  A handler builds one call, awaits it and answers from the \<open>{ data, error }\<close> it gets;
  the service is an argument of the handlers. A rejected promise (\<open>Inl\<close>) reaches the
  same \<open>catch\<close> as \<open>throw error\<close>.
\<close>

datatype sb_call =
    SbSelectAll
  | SbSelectSingle string
  | SbInsert "json_obj list"
  | SbUpdate json_obj string
  | SbDelete string

record sb_result =
  data :: jval
  error :: "string option"

type_synonym 'st service = "sb_call \<Rightarrow> 'st \<Rightarrow> (string + sb_result) \<times> 'st"

definition index0 :: "jval \<Rightarrow> string + jval option" where
  \<comment> \<open>\<open>data[0]\<close>: a TypeError on null, \<open>undefined\<close> (\<open>None\<close>) where there is no element 0\<close>
  "index0 v =
     (case v of
        JNull \<Rightarrow> Inl ''TypeError''
      | JArr xs \<Rightarrow> Inr (case xs of [] \<Rightarrow> None | x # _ \<Rightarrow> Some x)
      | JObj kvs \<Rightarrow> Inr (map_of kvs ''0'')
      | JStr cs \<Rightarrow> Inr (case cs of [] \<Rightarrow> None | c # _ \<Rightarrow> Some (JStr [c]))
      | _ \<Rightarrow> Inr None)"

definition respond_data :: "string \<Rightarrow> (jval \<Rightarrow> jval) \<Rightarrow> string + sb_result \<Rightarrow> response" where
  \<comment> \<open>\<open>if (error) throw error; res.json(...)\<close> inside \<open>try\<close>, the \<open>catch\<close> answering 500\<close>
  "respond_data failure shape r =
     (case r of
        Inl thrown \<Rightarrow> json_error 500 failure
      | Inr res \<Rightarrow>
          (case error res of
             Some e \<Rightarrow> json_error 500 failure
           | None \<Rightarrow> json_ok (shape (data res))))"

definition respond_first :: "string \<Rightarrow> string \<Rightarrow> string + sb_result \<Rightarrow> response" where
  \<comment> \<open>the same with \<open>res.json({ message, client: data[0] })\<close>\<close>
  "respond_first failure msg r =
     (case r of
        Inl thrown \<Rightarrow> json_error 500 failure
      | Inr res \<Rightarrow>
          (case error res of
             Some e \<Rightarrow> json_error 500 failure
           | None \<Rightarrow>
               (case index0 (data res) of
                  Inl type_error \<Rightarrow> json_error 500 failure
                | Inr None \<Rightarrow> json_ok (JObj [(''message'', JStr (check_mark @ msg))])
                | Inr (Some v) \<Rightarrow>
                    json_ok (JObj [(''message'', JStr (check_mark @ msg)), (''client'', v)]))))"

definition sb_list_clients :: "'st service \<Rightarrow> 'st \<Rightarrow> response \<times> 'st" where
  "sb_list_clients svc s =
     (case svc SbSelectAll s of
        (r, s1) \<Rightarrow> (respond_data ''Failed to fetch clients'' (\<lambda>d. JObj [(''data'', d)]) r, s1))"

definition sb_get_client :: "'st service \<Rightarrow> string \<Rightarrow> 'st \<Rightarrow> response \<times> 'st" where
  "sb_get_client svc idtxt s =
     (case svc (SbSelectSingle idtxt) s of
        (r, s1) \<Rightarrow> (respond_data ''Failed to fetch client'' (\<lambda>d. d) r, s1))"

definition sb_create_client :: "'st service \<Rightarrow> json_obj \<Rightarrow> 'st \<Rightarrow> response \<times> 'st" where
  "sb_create_client svc b s =
     (case svc (SbInsert [b]) s of
        (r, s1) \<Rightarrow>
          (respond_first ''Failed to add client'' '' Client added successfully'' r, s1))"

definition sb_update_client ::
  "'st service \<Rightarrow> string \<Rightarrow> json_obj \<Rightarrow> 'st \<Rightarrow> response \<times> 'st" where
  "sb_update_client svc idtxt b s =
     (case svc (SbUpdate b idtxt) s of
        (r, s1) \<Rightarrow>
          (respond_first ''Failed to update client'' '' Client updated successfully'' r, s1))"

definition sb_delete_client :: "'st service \<Rightarrow> string \<Rightarrow> 'st \<Rightarrow> response \<times> 'st" where
  "sb_delete_client svc idtxt s =
     (case svc (SbDelete idtxt) s of
        (r, s1) \<Rightarrow>
          (respond_first ''Failed to delete client'' '' Client deleted successfully'' r, s1))"

definition sb_dispatch :: "'st service \<Rightarrow> nat \<Rightarrow> route \<Rightarrow> 'st \<Rightarrow> response \<times> 'st" where
  "sb_dispatch svc now r s =
     (case r of
        Health \<Rightarrow> (health now, s)
      | ListClients q \<Rightarrow> sb_list_clients svc s
      | GetClient i \<Rightarrow> sb_get_client svc i s
      | CreateClient b \<Rightarrow> sb_create_client svc b s
      | UpdateClient i b \<Rightarrow> sb_update_client svc i b s
      | DeleteClient i \<Rightarrow> sb_delete_client svc i s)"

definition sb_handle_request ::
  "(string \<rightharpoonup> string) \<Rightarrow> 'st service \<Rightarrow> nat \<Rightarrow> string option \<Rightarrow> route \<Rightarrow> 'st
     \<Rightarrow> outcome \<times> 'st" where
  "sb_handle_request env svc now origin r s =
     cors_gate (supabase_allowedOrigins env) origin (sb_dispatch svc now r) s"

subsection \<open>The table behind the Supabase client\<close>

text \<open>
  What the service does with a call, as the client documents it: a row is a JSON object,
  \<open>eq('id', x)\<close> selects the rows whose \<open>id\<close> is the integer \<open>x\<close> reads as, \<open>update\<close>
  writes the columns named in its payload and no other, \<open>single\<close> is an error unless
  exactly one row is selected, and a write returns the rows it touched. This variant
  has no schema in its source: an inserted row is the payload as it is.
\<close>

definition has_id :: "string \<Rightarrow> json_obj \<Rightarrow> bool" where
  "has_id idtxt row =
     (case int4in idtxt of
        None \<Rightarrow> False
      | Some i \<Rightarrow> map_of row ''id'' = Some (JNum (of_int i)))"

definition patch_row :: "json_obj \<Rightarrow> json_obj \<Rightarrow> json_obj" where
  "patch_row payload row =
     map (\<lambda>(k, v). (k, case map_of payload k of None \<Rightarrow> v | Some v' \<Rightarrow> v')) row"

definition created_key :: "json_obj \<Rightarrow> rat" where
  "created_key row = (case map_of row ''created_at'' of Some (JNum t) \<Rightarrow> t | _ \<Rightarrow> 0)"

definition sb_failed :: "string + sb_result \<Rightarrow> bool" where
  \<comment> \<open>the call failed: the promise was rejected, or \<open>error\<close> is not null\<close>
  "sb_failed r = (case r of Inl thrown \<Rightarrow> True | Inr res \<Rightarrow> error res \<noteq> None)"

definition rows_result :: "json_obj list \<Rightarrow> string + sb_result" where
  "rows_result rs = Inr \<lparr>data = JArr (map JObj rs), error = None\<rparr>"

definition supabase :: "json_obj list service" where
  "supabase call rows =
     (case call of
        SbSelectAll \<Rightarrow> (rows_result (rev (sort_key created_key rows)), rows)
      | SbSelectSingle i \<Rightarrow>
          (case filter (has_id i) rows of
             [row] \<Rightarrow> (Inr \<lparr>data = JObj row, error = None\<rparr>, rows)
           | _ \<Rightarrow> (Inr \<lparr>data = JNull,
                         error = Some ''JSON object requested, multiple (or no) rows returned''\<rparr>,
                   rows))
      | SbInsert ps \<Rightarrow> (rows_result ps, rows @ ps)
      | SbUpdate payload i \<Rightarrow>
          (let rows' = map (\<lambda>row. if has_id i row then patch_row payload row else row) rows
           in (rows_result (map (patch_row payload) (filter (has_id i) rows)), rows'))
      | SbDelete i \<Rightarrow>
          (rows_result (filter (has_id i) rows), filter (\<lambda>row. \<not> has_id i row) rows))"


section \<open>The timestamp invariant\<close>


section \<open>Storage failures reach the catch branch\<close>

lemma pg_get_failure:
  "fst (select_by_id f i s) = Inl e \<Longrightarrow> fst (get_client f i s) = json_error 500 ''Failed to fetch client''"
  by (auto simp: get_client_def split: prod.splits sum.splits)

lemma pg_create_failure:
  "fst (insert_row f now (fields_of b) s) = Inl e \<Longrightarrow> fst (create_client f now b s) = json_error 500 ''Failed to add client''"
  by (auto simp: create_client_def split: prod.splits sum.splits)

lemma pg_update_failure:
  "fst (update_row f now (fields_of b) i s) = Inl e \<Longrightarrow> fst (update_client f now i b s) = json_error 500 ''Failed to update client''"
  by (auto simp: update_client_def split: prod.splits sum.splits)

lemma pg_delete_failure:
  "fst (delete_row f i s) = Inl e \<Longrightarrow> fst (delete_client f i s) = json_error 500 ''Failed to delete client''"
  by (auto simp: delete_client_def split: prod.splits sum.splits)

lemma count_all_fails: "fst (count_all f s) = Inl e \<longleftrightarrow> f = Some e"
  by (auto simp: count_all_def Let_def split: option.splits)

lemma pg_list_failure:
  "fst (select_page f1 10 ((parse_page q - 1) * 10) s) = Inl e \<or> f2 = Some e
   \<Longrightarrow> fst (list_clients f1 f2 q s) = json_error 500 ''Failed to fetch clients''"
proof -
  assume h: "fst (select_page f1 10 ((parse_page q - 1) * 10) s) = Inl e \<or> f2 = Some e"
  obtain r s1 where sp: "select_page f1 10 ((parse_page q - 1) * 10) s = (r, s1)"
    by (cases "select_page f1 10 ((parse_page q - 1) * 10) s")
  show ?thesis
  proof (cases r)
    case (Inl err)
    with sp show ?thesis by (simp add: list_clients_def)
  next
    case (Inr rows)
    with sp h have f2: "f2 = Some e" by simp
    obtain r2 s2 where ca: "count_all f2 s1 = (r2, s2)" by (cases "count_all f2 s1")
    with f2 have "r2 = Inl e" using count_all_fails [of f2 s1 e] by simp
    with sp Inr ca show ?thesis by (simp add: list_clients_def)
  qed
qed

lemma respond_data_failure: "sb_failed r \<Longrightarrow> respond_data m sh r = json_error 500 m"
  by (auto simp: respond_data_def sb_failed_def split: sum.splits option.splits)

lemma respond_first_failure: "sb_failed r \<Longrightarrow> respond_first m ok r = json_error 500 m"
  by (auto simp: respond_first_def sb_failed_def split: sum.splits option.splits)

lemma sb_failures:
  "sb_failed (fst (svc SbSelectAll s)) \<Longrightarrow> fst (sb_list_clients svc s) = json_error 500 ''Failed to fetch clients''"
  "sb_failed (fst (svc (SbSelectSingle i) s)) \<Longrightarrow> fst (sb_get_client svc i s) = json_error 500 ''Failed to fetch client''"
  "sb_failed (fst (svc (SbInsert [b]) s)) \<Longrightarrow> fst (sb_create_client svc b s) = json_error 500 ''Failed to add client''"
  "sb_failed (fst (svc (SbUpdate b i) s)) \<Longrightarrow> fst (sb_update_client svc i b s) = json_error 500 ''Failed to update client''"
  "sb_failed (fst (svc (SbDelete i) s)) \<Longrightarrow> fst (sb_delete_client svc i s) = json_error 500 ''Failed to delete client''"
  by (auto simp: sb_list_clients_def sb_get_client_def sb_create_client_def sb_update_client_def sb_delete_client_def
      respond_data_failure respond_first_failure split: prod.splits)

section \<open>Reading a decimal count back\<close>

lemma digit_val_dec: "(d::nat) < 10 \<Longrightarrow> digit_val (char_of (48 + d)) = Some d"
  by (simp add: digit_val_def Let_def)

lemma is_digit_dec: "(d::nat) < 10 \<Longrightarrow> is_digit 10 (char_of (48 + d))"
  by (simp add: is_digit_def digit_val_dec)

lemma dec_small: "n < 10 \<Longrightarrow> dec n = [char_of (48 + n)]"
  by (subst dec.simps) simp

lemma dec_big: "\<not> n < 10 \<Longrightarrow> dec n = dec (n div 10) @ [char_of (48 + n mod 10)]"
  by (subst dec.simps) simp

lemma dec_digits: "c \<in> set (dec n) \<Longrightarrow> is_digit 10 c"
proof (induction n rule: dec.induct)
  case (1 n)
  show ?case
  proof (cases "n < 10")
    case True
    with "1.prems" show ?thesis by (simp add: dec_small is_digit_dec)
  next
    case False
    with "1.prems" have "c \<in> set (dec (n div 10)) \<or> c = char_of (48 + n mod 10)"
      by (auto simp: dec_big)
    with False "1.IH" show ?thesis by (auto simp: is_digit_dec)
  qed
qed

lemma dec_nonempty: "dec n \<noteq> []"
  by (cases "n < 10") (simp_all add: dec_small dec_big)

lemma digits_value_snoc:
  "digits_value r (ds @ [c]) = digits_value r ds * r + the (digit_val c)"
  by (simp add: digits_value_def)

lemma digits_value_dec: "digits_value 10 (dec n) = n"
proof (induction n rule: dec.induct)
  case (1 n)
  show ?case
  proof (cases "n < 10")
    case True
    then show ?thesis by (simp add: dec_small digits_value_def digit_val_dec)
  next
    case False
    then have "dec n = dec (n div 10) @ [char_of (48 + n mod 10)]"
      by (rule dec_big)
    with False "1.IH" show ?thesis
      by (simp add: digits_value_snoc digit_val_dec)
  qed
qed

lemma digit_range:
  "is_digit 10 c \<Longrightarrow> 48 \<le> (of_char c :: nat) \<and> (of_char c :: nat) \<le> 57"
  by (auto simp: is_digit_def digit_val_def Let_def split: option.splits if_splits)

lemma is_digit_not_special:
  assumes "is_digit 10 c"
  shows "\<not> is_ws c \<and> c \<noteq> CHR ''+'' \<and> c \<noteq> CHR ''-'' \<and> c \<noteq> CHR ''x'' \<and> c \<noteq> CHR ''X''"
  using digit_range [OF assms] by (auto simp: is_ws_def)

lemma skip_ws_none: "ws_prefix s = 0 \<Longrightarrow> skip_ws s = s"
  by (subst skip_ws.simps) simp

lemma skip_ws_some: "ws_prefix s \<noteq> 0 \<Longrightarrow> skip_ws s = skip_ws (drop (ws_prefix s) s)"
  by (subst skip_ws.simps) simp

lemma ws_prefix_digit:
  assumes "is_digit 10 c"
  shows "ws_prefix (c # cs) = 0"
proof -
  from digit_range [OF assms]
  have "\<not> is_ws c" "c \<noteq> CHR 0xC2" "c \<noteq> CHR 0xE1" "c \<noteq> CHR 0xE2" "c \<noteq> CHR 0xE3"
    "c \<noteq> CHR 0xEF"
    by (auto simp: is_ws_def)
  then show ?thesis by (simp add: ws_prefix_def)
qed

lemma takeWhile_all: "\<forall>c \<in> set xs. P c \<Longrightarrow> takeWhile P xs = xs"
  by (induction xs) auto

lemma parseInt_digits:
  assumes ne: "ds \<noteq> []" and dig: "\<forall>c \<in> set ds. is_digit 10 c"
  shows "parseInt ds = Some (int (digits_value 10 ds))"
proof -
  obtain c cs where ds: "ds = c # cs" using ne by (cases ds) auto
  have c: "\<not> is_ws c" "c \<noteq> CHR ''+''" "c \<noteq> CHR ''-''"
    using dig ds is_digit_not_special [of c] by auto
  have nohex: "take 2 ds \<noteq> ''0x'' \<and> take 2 ds \<noteq> ''0X''"
  proof (cases cs)
    case Nil
    with ds show ?thesis by simp
  next
    case (Cons d rest)
    with dig ds have "is_digit 10 d" by simp
    then have "d \<noteq> CHR ''x''" "d \<noteq> CHR ''X''" using is_digit_not_special [of d] by auto
    with ds Cons show ?thesis by simp
  qed
  have tw: "takeWhile (is_digit 10) ds = ds" using dig by (rule takeWhile_all)
  have dw: "skip_ws ds = ds" using ds dig by (simp add: skip_ws_none ws_prefix_digit)
  have hd: "hd ds \<noteq> CHR ''+''" "hd ds \<noteq> CHR ''-''" using ds c by simp_all
  show ?thesis
    unfolding parseInt_def dw Let_def using hd nohex ne by (simp add: tw)
qed

lemma parseInt_dec: "parseInt (dec n) = Some (int n)"
  using parseInt_digits [of "dec n"] dec_nonempty [of n] dec_digits [of _ n]
  by (simp add: digits_value_dec)

lemma math_ceil_div_10: "math_ceil_div a 10 = (a + 9) div 10"
proof -
  have "rat_of_int a / rat_of_int 10 = of_int a / of_int 10" by simp
  then have "math_ceil_div a 10 = - (- a div 10)"
    unfolding math_ceil_div_def by (simp only: ceiling_divide_eq_div)
  also have "\<dots> = (a + 9) div 10" by presburger
  finally show ?thesis .
qed

section \<open>The list handler on a working store\<close>

lemma select_page_ok:
  "0 \<le> off \<Longrightarrow> select_page None 10 off s =
     (Inr (take 10 (drop (nat off) (order_desc (clients s)))), ran SelectPage s)"
  by (simp add: select_page_def Let_def)

lemma count_all_ok: "count_all None s = (Inr (dec (length (clients s))), ran CountAll s)"
  by (simp add: count_all_def Let_def)

lemma clients_ran: "clients (ran k s) = clients s"
  by (simp add: ran_def)

lemma list_clients_ok:
  assumes "1 \<le> parse_page q"
  shows "fst (list_clients None None q s) = json_ok (JObj
     [(''data'', JArr (map row_json
         (take 10 (drop (nat ((parse_page q - 1) * 10)) (order_desc (clients s)))))),
      (''currentPage'', JNum (of_int (parse_page q))),
      (''totalPages'', JNum (of_int (math_ceil_div (int (length (clients s))) 10))),
      (''totalClients'', JNum (of_int (int (length (clients s)))))])"
proof -
  have off: "0 \<le> (parse_page q - 1) * 10" using assms by simp
  show ?thesis
    unfolding list_clients_def Let_def select_page_ok [OF off]
    by (simp add: count_all_ok clients_ran parseInt_dec json_int_def)
qed

lemma list_clients_success:
  assumes "status (fst (list_clients f1 f2 q s)) = 200"
  shows "f1 = None \<and> f2 = None \<and> 1 \<le> parse_page q"
proof -
  have ne: "status (json_error 500 m) \<noteq> 200" for m by (simp add: json_error_def)
  have "\<not> (fst (select_page f1 10 ((parse_page q - 1) * 10) s) = Inl e \<or> f2 = Some e)" for e
    using pg_list_failure [of f1 q s e f2] assms ne by auto
  then have a: "\<And>e. fst (select_page f1 10 ((parse_page q - 1) * 10) s) \<noteq> Inl e"
    and b': "\<And>e. f2 \<noteq> Some e"
    by blast+
  from b' have b: "f2 = None" by (cases f2) auto
  from a have "\<exists>rows. fst (select_page f1 10 ((parse_page q - 1) * 10) s) = Inr rows"
    by (cases "fst (select_page f1 10 ((parse_page q - 1) * 10) s)") auto
  then have "f1 = None \<and> \<not> (parse_page q - 1) * 10 < 0"
    by (auto simp: select_page_def Let_def split: option.splits if_splits)
  then show ?thesis using b by simp
qed

lemma order_desc_sorted: "sorted_wrt (\<lambda>a b. created_at b \<le> created_at a) (order_desc rs)"
proof -
  have "sorted (map created_at (sort_key created_at rs))" by (rule sorted_sort_key)
  then have "sorted_wrt (\<lambda>a b. created_at a \<le> created_at b) (sort_key created_at rs)"
    by (simp add: sorted_wrt_map)
  then show ?thesis by (simp add: order_desc_def sorted_wrt_rev)
qed

lemma page_sorted:
  "sorted_wrt (\<lambda>a b. created_at b \<le> created_at a) (take n (drop k (order_desc rs)))"
  by (intro sorted_wrt_take sorted_wrt_drop order_desc_sorted)


lemma order_desc_set: "set (order_desc rs) = set rs"
  by (simp add: order_desc_def)

section \<open>Claims\<close>

text \<open>
  Claim C7. Whatever makes a storage call fail, the handler answers 500 with the fixed
  message of its endpoint and nothing of the error: in the PostgreSQL variant when
  \<open>pool.query\<close> throws (either query of the list handler), in the Supabase variant when
  the call is rejected or returns a non-null \<open>error\<close>. The answer does not mention \<open>e\<close>,
  so two failures at one endpoint get the same answer.
\<close>

theorem storage_failure_generic_500:
  "(fst (select_page f1 10 ((parse_page q - 1) * 10) s) = Inl e \<or> f2 = Some e
      \<longrightarrow> fst (list_clients f1 f2 q s) = json_error 500 ''Failed to fetch clients'')
   \<and> (fst (select_by_id f i s) = Inl e
      \<longrightarrow> fst (get_client f i s) = json_error 500 ''Failed to fetch client'')
   \<and> (fst (insert_row f now (fields_of b) s) = Inl e
      \<longrightarrow> fst (create_client f now b s) = json_error 500 ''Failed to add client'')
   \<and> (fst (update_row f now (fields_of b) i s) = Inl e
      \<longrightarrow> fst (update_client f now i b s) = json_error 500 ''Failed to update client'')
   \<and> (fst (delete_row f i s) = Inl e
      \<longrightarrow> fst (delete_client f i s) = json_error 500 ''Failed to delete client'')
   \<and> (sb_failed (fst (svc SbSelectAll st))
      \<longrightarrow> fst (sb_list_clients svc st) = json_error 500 ''Failed to fetch clients'')
   \<and> (sb_failed (fst (svc (SbSelectSingle i) st))
      \<longrightarrow> fst (sb_get_client svc i st) = json_error 500 ''Failed to fetch client'')
   \<and> (sb_failed (fst (svc (SbInsert [b]) st))
      \<longrightarrow> fst (sb_create_client svc b st) = json_error 500 ''Failed to add client'')
   \<and> (sb_failed (fst (svc (SbUpdate b i) st))
      \<longrightarrow> fst (sb_update_client svc i b st) = json_error 500 ''Failed to update client'')
   \<and> (sb_failed (fst (svc (SbDelete i) st))
      \<longrightarrow> fst (sb_delete_client svc i st) = json_error 500 ''Failed to delete client'')"
  by (intro conjI impI;
      erule pg_list_failure pg_get_failure pg_create_failure pg_update_failure
        pg_delete_failure sb_failures)

theorem storage_failure_generic_500_witness:
  "fst (select_by_id (Some ''ECONNREFUSED'') ''7'' \<lparr>clients = [], clients_id_seq = 1, queries = []\<rparr>)
     = Inl ''ECONNREFUSED''
   \<and> fst (get_client (Some ''ECONNREFUSED'') ''7'' \<lparr>clients = [], clients_id_seq = 1, queries = []\<rparr>)
     = \<lparr>status = 500, body = JObj [(''error'', JStr ''Failed to fetch client'')]\<rparr>
   \<and> fst (select_by_id None ''abc'' \<lparr>clients = [], clients_id_seq = 1, queries = []\<rparr>)
     = Inl ''invalid input syntax for type integer''
   \<and> fst (get_client None ''abc'' \<lparr>clients = [], clients_id_seq = 1, queries = []\<rparr>)
     = \<lparr>status = 500, body = JObj [(''error'', JStr ''Failed to fetch client'')]\<rparr>
   \<and> sb_failed (fst (supabase (SbSelectSingle ''7'') []))
   \<and> fst (sb_get_client supabase ''7'' [])
     = \<lparr>status = 500, body = JObj [(''error'', JStr ''Failed to fetch client'')]\<rparr>"
proof -
  let ?s = "\<lparr>clients = [], clients_id_seq = 1, queries = []\<rparr>"
  have a: "fst (select_by_id (Some ''ECONNREFUSED'') ''7'' ?s) = Inl ''ECONNREFUSED''"
    by (simp add: select_by_id_def Let_def)
  have b: "fst (select_by_id None ''abc'' ?s) = Inl ''invalid input syntax for type integer''"
    by (simp add: select_by_id_def Let_def int4in_def is_ws_def is_digit_def digit_val_def)
  have c: "sb_failed (fst (supabase (SbSelectSingle ''7'') []))"
    by (simp add: supabase_def sb_failed_def)
  show ?thesis
    using a b c
      storage_failure_generic_500 [where f = "Some ''ECONNREFUSED''" and i = "''7''" and s = ?s
        and e = "''ECONNREFUSED''" and svc = supabase and st = "[]"]
      storage_failure_generic_500 [where f = None and i = "''abc''" and s = ?s
        and e = "''invalid input syntax for type integer''" and svc = supabase and st = "[]"]
    by (simp add: json_error_def)
qed

lemma no_row_filter: "\<forall>r \<in> set rs. client_id r \<noteq> n \<Longrightarrow> filter (\<lambda>r. client_id r = n) rs = []"
  by (induction rs) auto

lemma no_row_map:
  "\<forall>r \<in> set rs. client_id r \<noteq> n \<Longrightarrow> map (\<lambda>r. if client_id r = n then g r else r) rs = rs"
  by (induction rs) auto

lemma respond_data_status: "status (respond_data m sh r) \<noteq> 404"
  by (simp add: respond_data_def json_error_def json_ok_def split: sum.splits option.splits)

lemma respond_first_status: "status (respond_first m ok r) \<noteq> 404"
  by (simp add: respond_first_def json_error_def json_ok_def split: sum.splits option.splits)

lemma supabase_never_404:
  "status (fst (sb_get_client svc i st)) \<noteq> 404"
  "status (fst (sb_update_client svc i b st)) \<noteq> 404"
  "status (fst (sb_delete_client svc i st)) \<noteq> 404"
  by (simp_all add: sb_get_client_def sb_update_client_def sb_delete_client_def
      respond_data_status respond_first_status split: prod.splits)

text \<open>
  Claim C1, as amended. In the PostgreSQL variant, a get, an update or a delete whose id
  reads as an integer that no row has, on a store that answers, is answered 404 with
  \<open>{error: "Client not found"}\<close>, not 500.
\<close>

theorem missing_id_404_pg:
  assumes "int4in i = Some n" and "\<forall>r \<in> set (clients s). client_id r \<noteq> n"
  shows "fst (get_client None i s) = json_error 404 ''Client not found''
       \<and> fst (update_client None now i b s) = json_error 404 ''Client not found''
       \<and> fst (delete_client None i s) = json_error 404 ''Client not found''"
proof -
  have none: "filter (\<lambda>r. client_id r = n) (clients s) = []"
    using assms(2) by (rule no_row_filter)
  have same: "map (\<lambda>r. if client_id r = n then set_row now (fields_of b) r else r) (clients s)
                = clients s"
    using assms(2) by (rule no_row_map)
  have g: "fst (get_client None i s) = json_error 404 ''Client not found''"
    using assms(1) none by (simp add: get_client_def select_by_id_def Let_def)
  have u: "fst (update_client None now i b s) = json_error 404 ''Client not found''"
    using assms none same by (simp add: update_client_def update_row_def Let_def)
  have d: "fst (delete_client None i s) = json_error 404 ''Client not found''"
    using assms(1) none by (simp add: delete_client_def delete_row_def Let_def)
  from g u d show ?thesis by simp
qed

lemma int4in_7: "int4in ''7'' = Some 7"
  by (simp add: int4in_def is_ws_def is_digit_def digit_val_def digits_value_def Let_def)

theorem missing_id_404_pg_witness:
  "int4in ''7'' = Some 7
   \<and> fst (get_client None ''7'' \<lparr>clients = [], clients_id_seq = 1, queries = []\<rparr>)
       = \<lparr>status = 404, body = JObj [(''error'', JStr ''Client not found'')]\<rparr>
   \<and> fst (update_client None 5 ''7'' [(''full_name'', JStr ''Ann'')]
           \<lparr>clients = [], clients_id_seq = 1, queries = []\<rparr>)
       = \<lparr>status = 404, body = JObj [(''error'', JStr ''Client not found'')]\<rparr>
   \<and> fst (delete_client None ''7'' \<lparr>clients = [], clients_id_seq = 1, queries = []\<rparr>)
       = \<lparr>status = 404, body = JObj [(''error'', JStr ''Client not found'')]\<rparr>"
  using missing_id_404_pg [of "''7''" 7 "\<lparr>clients = [], clients_id_seq = 1, queries = []\<rparr>"
      5 "[(''full_name'', JStr ''Ann'')]"] int4in_7
  by (simp add: json_error_def)

text \<open>
  The Supabase variant has no such answer. Deleting an id that no row has succeeds
  there, and the handler answers 200 with the success message.
\<close>

theorem missing_id_supabase_counterexample:
  "\<not> sb_failed (fst (supabase (SbDelete ''7'') []))
   \<and> fst (sb_delete_client supabase ''7'' [])
       = \<lparr>status = 200,
          body = JObj [(''message'', JStr (check_mark @ '' Client deleted successfully''))]\<rparr>"
  by (simp add: sb_delete_client_def supabase_def rows_result_def sb_failed_def
      respond_first_def index0_def json_ok_def)

text \<open>
  Claim C6, as amended. A request whose Origin header is not empty and not in the
  allow-list is rejected with the error \<open>Not allowed by CORS\<close>: no handler runs and the
  store is as it was, with no query issued. A request with no Origin header goes on to
  its handler. Both variants.
\<close>

theorem cors_gate_rejects_foreign_origin:
  assumes "orig \<noteq> []"
  shows "(orig \<notin> set allowedOrigins
            \<longrightarrow> handle_request c (Some orig) r s = (Rejected ''Not allowed by CORS'', s))
       \<and> (orig \<notin> set (supabase_allowedOrigins env)
            \<longrightarrow> sb_handle_request env svc now (Some orig) r st
                  = (Rejected ''Not allowed by CORS'', st))
       \<and> cors_origin allowed None = Inr True
       \<and> handle_request c None r s = (Responded (fst (dispatch c r s)), snd (dispatch c r s))
       \<and> sb_handle_request env svc now None r st
            = (Responded (fst (sb_dispatch svc now r st)), snd (sb_dispatch svc now r st))"
  using assms
  by (simp add: handle_request_def sb_handle_request_def cors_gate_def cors_origin_def
      split: prod.splits)

theorem cors_gate_rejects_foreign_origin_witness:
  "''https://evil.example'' \<noteq> []
   \<and> ''https://evil.example'' \<notin> set allowedOrigins
   \<and> handle_request \<lparr>clock = 0, fault1 = None, fault2 = None\<rparr> (Some ''https://evil.example'')
        (DeleteClient ''1'') \<lparr>clients = [], clients_id_seq = 1, queries = []\<rparr>
       = (Rejected ''Not allowed by CORS'', \<lparr>clients = [], clients_id_seq = 1, queries = []\<rparr>)"
  using cors_gate_rejects_foreign_origin [where orig = "''https://evil.example''"
      and c = "\<lparr>clock = 0, fault1 = None, fault2 = None\<rparr>" and r = "DeleteClient ''1''"
      and s = "\<lparr>clients = [], clients_id_seq = 1, queries = []\<rparr>"
      and env = Map.empty and svc = supabase and now = 0 and st = "[]" and allowed = "[]"]
  by (simp add: allowedOrigins_def)

text \<open>
  An Origin header that is present and empty is not in the allow-list, and the gate
  lets it through: the handler runs and queries the store.
\<close>

theorem cors_empty_origin_counterexample:
  "[] \<notin> set allowedOrigins
   \<and> handle_request \<lparr>clock = 0, fault1 = None, fault2 = None\<rparr> (Some [])
        (DeleteClient ''1'') \<lparr>clients = [], clients_id_seq = 1, queries = []\<rparr>
       = (Responded \<lparr>status = 404, body = JObj [(''error'', JStr ''Client not found'')]\<rparr>,
          \<lparr>clients = [], clients_id_seq = 1, queries = [Delete]\<rparr>)"
  by (simp add: allowedOrigins_def handle_request_def cors_gate_def cors_origin_def
      dispatch_def delete_client_def delete_row_def ran_def Let_def json_error_def
      int4in_def is_ws_def is_digit_def digit_val_def digits_value_def)

text \<open>
  Claim C8, as amended. The Supabase variant exits with status 1 when \<open>SUPABASE_KEY\<close>
  is unset or empty, before the application is built; the PostgreSQL variant reaches
  \<open>app.listen\<close> whatever the environment holds and however the connection test ends.
\<close>

theorem missing_key_aborts_supabase:
  assumes "falsy (env ''SUPABASE_KEY'')"
  shows "start_supabase env = Exited 1
       \<and> start_pg env' connect_err = Listening (or_default (env' ''PORT'') ''4000'')"
  using assms by (simp add: start_supabase_def start_pg_def)

theorem missing_key_aborts_supabase_witness:
  "falsy (Map.empty ''SUPABASE_KEY'') \<and> start_supabase Map.empty = Exited 1"
  using missing_key_aborts_supabase [where env = Map.empty and env' = Map.empty
      and connect_err = None]
  by (simp add: falsy_def)

text \<open>
  With \<open>DATABASE_URL\<close> unset and the connection test failing, the PostgreSQL variant
  listens on the default port.
\<close>

theorem missing_database_url_counterexample:
  "Map.empty ''DATABASE_URL'' = None
   \<and> start_pg Map.empty (Some ''connect ECONNREFUSED'') = Listening ''4000''"
  by (simp add: start_pg_def or_default_def)



lemma set_row_fields:
  "set_row now (fields_of b) r =
     r\<lparr>full_name := field b ''full_name'', email := field b ''email'',
       phone := field b ''phone'', location := field b ''location'',
       service_type := field b ''service_type'', serial_number := field b ''serial_number'',
       price := field b ''price'', supporter := field b ''supporter'',
       has_bonus := field b ''has_bonus'', updated_at := now\<rparr>"
  by (simp add: set_row_def fields_of_def mutable_fields_def)




lemma parse_page_values:
  "parse_page None = 1" "parse_page (Some ''abc'') = 1" "parse_page (Some ''0'') = 1"
  "parse_page (Some ''1'') = 1" "parse_page (Some ''3'') = 3" "parse_page (Some ''-1'') = - 1"
  by (simp_all add: parse_page_def to_string_def parseInt_def skip_ws_none ws_prefix_def
      is_ws_def is_digit_def digit_val_def digits_value_def Let_def)

lemma ceil_div_10: "of_int (math_ceil_div (int n) 10) = (of_int \<lceil>rat_of_nat n / 10\<rceil> :: rat)"
  by (simp add: math_ceil_div_def)



text \<open>
  Claim C2, as amended. In the PostgreSQL variant, a list request answered 200 carries
  \<open>data\<close>, \<open>currentPage\<close>, \<open>totalPages\<close> and \<open>totalClients\<close>; \<open>totalPages\<close> is
  \<open>ceil(totalClients / 10)\<close>, \<open>data\<close> is the page's slice of the table in descending
  \<open>created_at\<close>, at most 10 rows; an empty table gives \<open>data = []\<close> and \<open>totalPages = 0\<close>.
\<close>

theorem list_page_shape_pg:
  assumes "status (fst (list_clients f1 f2 q s)) = 200"
  shows "\<exists>rows.
       rows = take 10 (drop (nat ((parse_page q - 1) * 10)) (order_desc (clients s)))
     \<and> fst (list_clients f1 f2 q s) =
         \<lparr>status = 200,
          body = JObj
            [(''data'', JArr (map row_json rows)),
             (''currentPage'', JNum (of_int (parse_page q))),
             (''totalPages'', JNum (of_int \<lceil>rat_of_nat (length (clients s)) / 10\<rceil>)),
             (''totalClients'', JNum (of_nat (length (clients s))))]\<rparr>
     \<and> length rows \<le> 10
     \<and> sorted_wrt (\<lambda>a b. created_at b \<le> created_at a) rows
     \<and> set rows \<subseteq> set (clients s)
     \<and> (clients s = [] \<longrightarrow> rows = [] \<and> \<lceil>rat_of_nat (length (clients s)) / 10\<rceil> = 0)"
proof -
  let ?rows = "take 10 (drop (nat ((parse_page q - 1) * 10)) (order_desc (clients s)))"
  from list_clients_success [OF assms]
  have f: "f1 = None" "f2 = None" and p: "1 \<le> parse_page q" by simp_all
  have resp: "fst (list_clients f1 f2 q s) =
         \<lparr>status = 200,
          body = JObj
            [(''data'', JArr (map row_json ?rows)),
             (''currentPage'', JNum (of_int (parse_page q))),
             (''totalPages'', JNum (of_int \<lceil>rat_of_nat (length (clients s)) / 10\<rceil>)),
             (''totalClients'', JNum (of_nat (length (clients s))))]\<rparr>"
    using list_clients_ok [OF p, of s] f by (simp add: json_ok_def ceil_div_10)
  have len: "length ?rows \<le> 10" by simp
  have srt: "sorted_wrt (\<lambda>a b. created_at b \<le> created_at a) ?rows" by (rule page_sorted)
  have sub: "set ?rows \<subseteq> set (clients s)"
    using set_take_subset [of 10 "drop (nat ((parse_page q - 1) * 10)) (order_desc (clients s))"]
      set_drop_subset [of "nat ((parse_page q - 1) * 10)" "order_desc (clients s)"]
    by (auto simp: order_desc_set)
  have emp: "clients s = [] \<longrightarrow> ?rows = [] \<and> \<lceil>rat_of_nat (length (clients s)) / 10\<rceil> = 0"
    by (simp add: order_desc_def)
  from resp len srt sub emp show ?thesis by blast
qed

theorem list_page_shape_pg_witness:
  "status (fst (list_clients None None (Some ''1'') \<lparr>clients = [], clients_id_seq = 1, queries = []\<rparr>)) = 200
   \<and> fst (list_clients None None (Some ''1'') \<lparr>clients = [], clients_id_seq = 1, queries = []\<rparr>) =
       \<lparr>status = 200,
        body = JObj [(''data'', JArr []), (''currentPage'', JNum 1), (''totalPages'', JNum 0),
                     (''totalClients'', JNum 0)]\<rparr>"
proof -
  let ?s = "\<lparr>clients = [], clients_id_seq = 1, queries = []\<rparr>"
  have ok: "status (fst (list_clients None None (Some ''1'') ?s)) = 200"
    using list_clients_ok [of "Some ''1''" ?s] by (simp add: parse_page_values json_ok_def)
  from list_page_shape_pg [OF ok] ok show ?thesis
    by (simp add: parse_page_values order_desc_def)
qed

text \<open>
  The list handler of the Supabase variant returns every row under \<open>data\<close> and nothing
  else: with eleven rows in the table, eleven come back, and there is no \<open>totalPages\<close>.
\<close>

theorem list_supabase_counterexample:
  "fst (sb_list_clients supabase
         [[(''id'', JNum 1)], [(''id'', JNum 2)], [(''id'', JNum 3)], [(''id'', JNum 4)], [(''id'', JNum 5)], [(''id'', JNum 6)], [(''id'', JNum 7)], [(''id'', JNum 8)], [(''id'', JNum 9)], [(''id'', JNum 10)], [(''id'', JNum 11)]]) =
     \<lparr>status = 200,
      body = JObj [(''data'', JArr
         [JObj [(''id'', JNum 11)], JObj [(''id'', JNum 10)], JObj [(''id'', JNum 9)], JObj [(''id'', JNum 8)], JObj [(''id'', JNum 7)], JObj [(''id'', JNum 6)], JObj [(''id'', JNum 5)], JObj [(''id'', JNum 4)], JObj [(''id'', JNum 3)], JObj [(''id'', JNum 2)], JObj [(''id'', JNum 1)]])]\<rparr>"
  by (simp add: sb_list_clients_def supabase_def rows_result_def respond_data_def
      json_ok_def created_key_def)

text \<open>
  Claim C5. The page is \<open>parseInt(req.query.page) || 1\<close>: a missing page, one with no
  leading integer and \<open>0\<close> give page 1, but a negative page stays negative. With
  \<open>page=-1\<close> the offset is \<open>-20\<close>, the store refuses it and the answer is 500, where
  \<open>page=1\<close> is answered 200.
\<close>

theorem negative_page_not_defaulted:
  "parse_page None = 1 \<and> parse_page (Some ''abc'') = 1 \<and> parse_page (Some ''0'') = 1
   \<and> parse_page (Some ''-1'') = - 1
   \<and> (parse_page (Some ''-1'') - 1) * 10 = - 20
   \<and> fst (list_clients None None (Some ''-1'') s)
       = \<lparr>status = 500, body = JObj [(''error'', JStr ''Failed to fetch clients'')]\<rparr>
   \<and> status (fst (list_clients None None (Some ''1'') s)) = 200"
proof -
  have "fst (list_clients None None (Some ''-1'') s)
       = \<lparr>status = 500, body = JObj [(''error'', JStr ''Failed to fetch clients'')]\<rparr>"
    by (simp add: list_clients_def parse_page_values select_page_def Let_def json_error_def)
  moreover have "status (fst (list_clients None None (Some ''1'') s)) = 200"
    using list_clients_ok [of "Some ''1''" s] by (simp add: parse_page_values json_ok_def)
  ultimately show ?thesis by (simp add: parse_page_values)
qed

lemma update_client_success:
  assumes "status (fst (update_client f now i b s)) = 200"
  shows "\<exists>n. int4in i = Some n \<and> (\<exists>r \<in> set (clients s). client_id r = n)
           \<and> clients (snd (update_client f now i b s))
               = map (\<lambda>r. if client_id r = n then set_row now (fields_of b) r else r) (clients s)"
proof -
  have ne: "status (json_error c m) = c" for c m by (simp add: json_error_def)
  obtain res s1 where ur: "update_row f now (fields_of b) i s = (res, s1)"
    by (cases "update_row f now (fields_of b) i s")
  show ?thesis
  proof (cases res)
    case (Inl e)
    with ur assms ne show ?thesis by (simp add: update_client_def)
  next
    case (Inr rows)
    with ur assms ne have rows: "rows \<noteq> []"
      by (cases rows) (simp_all add: update_client_def)
    from ur Inr obtain n where n: "int4in i = Some n"
      and s1: "s1 = (ran Update s)\<lparr>clients :=
                 map (\<lambda>r. if client_id r = n then set_row now (fields_of b) r else r) (clients s)\<rparr>"
      and r: "rows = filter (\<lambda>r. client_id r = n)
                 (map (\<lambda>r. if client_id r = n then set_row now (fields_of b) r else r) (clients s))"
      by (auto simp: update_row_def Let_def split: option.splits if_splits)
    from r rows obtain x where "x \<in> set (clients s)"
      "client_id (if client_id x = n then set_row now (fields_of b) x else x) = n"
      by (auto simp: filter_empty_conv)
    then have "\<exists>r \<in> set (clients s). client_id r = n"
      by (auto simp: set_row_def split: if_splits)
    moreover have "clients (snd (update_client f now i b s)) = clients s1"
      using ur Inr rows by (cases rows) (simp_all add: update_client_def)
    ultimately show ?thesis using n s1 by simp
  qed
qed


text \<open>
  Claim C3, as amended. In the PostgreSQL variant, an update answered 200 writes all nine
  mutable columns of the row with the given id: each gets the body's value, and NULL
  when the body has no such field. The other rows are as they were.
\<close>

theorem update_replaces_all_fields_pg:
  assumes "status (fst (update_client f now i b s)) = 200"
  shows "\<exists>n. int4in i = Some n
       \<and> (\<exists>r \<in> set (clients s). client_id r = n)
       \<and> clients (snd (update_client f now i b s)) =
           map (\<lambda>r. if client_id r = n
                     then r\<lparr>full_name := field b ''full_name'', email := field b ''email'',
                            phone := field b ''phone'', location := field b ''location'',
                            service_type := field b ''service_type'',
                            serial_number := field b ''serial_number'',
                            price := field b ''price'', supporter := field b ''supporter'',
                            has_bonus := field b ''has_bonus'', updated_at := now\<rparr>
                     else r) (clients s)
       \<and> (\<forall>k. map_of b k = None \<longrightarrow> field b k = JNull)"
proof -
  from update_client_success [OF assms] obtain n where n: "int4in i = Some n"
    and r: "\<exists>r \<in> set (clients s). client_id r = n"
    and c: "clients (snd (update_client f now i b s))
             = map (\<lambda>r. if client_id r = n then set_row now (fields_of b) r else r) (clients s)"
    by blast
  have "\<forall>k. map_of b k = None \<longrightarrow> field b k = JNull" by (simp add: field_def)
  with n r c show ?thesis unfolding set_row_fields by blast
qed

lemma fields_of_0: "fields_of b ! 0 = field b ''full_name''"
  by (simp add: fields_of_def mutable_fields_def)

lemma int4in_1: "int4in ''1'' = Some 1"
  by (simp add: int4in_def is_ws_def is_digit_def digit_val_def digits_value_def Let_def)

lemma update_ann:
  "update_client None 9 ''1'' [(''full_name'', JStr ''Ann B.'')]
     \<lparr>clients = [\<lparr>client_id = 1, full_name = JStr ''Ann'', email = JStr ''ann@x.com'',
          phone = JNull, location = JNull, service_type = JNull, serial_number = JNull,
          price = JNull, supporter = JNull, has_bonus = JBool True,
          created_at = 5, updated_at = 5\<rparr>],
        clients_id_seq = 2, queries = []\<rparr>
   = (\<lparr>status = 200,
       body = JObj [(''message'', JStr (check_mark @ '' Client updated successfully'')),
         (''client'', row_json \<lparr>client_id = 1, full_name = JStr ''Ann B.'', email = JNull,
            phone = JNull, location = JNull, service_type = JNull, serial_number = JNull,
            price = JNull, supporter = JNull, has_bonus = JNull,
            created_at = 5, updated_at = 9\<rparr>)]\<rparr>,
      \<lparr>clients = [\<lparr>client_id = 1, full_name = JStr ''Ann B.'', email = JNull,
          phone = JNull, location = JNull, service_type = JNull, serial_number = JNull,
          price = JNull, supporter = JNull, has_bonus = JNull,
          created_at = 5, updated_at = 9\<rparr>],
        clients_id_seq = 2, queries = [Update]\<rparr>)"
  by (simp add: update_client_def update_row_def int4in_1 ran_def Let_def set_row_fields
      fields_of_0 field_def with_client_def json_ok_def)

theorem update_replaces_all_fields_pg_witness:
  "clients (snd (update_client None 9 ''1'' [(''full_name'', JStr ''Ann B.'')]
     \<lparr>clients = [\<lparr>client_id = 1, full_name = JStr ''Ann'', email = JStr ''ann@x.com'',
          phone = JNull, location = JNull, service_type = JNull, serial_number = JNull,
          price = JNull, supporter = JNull, has_bonus = JBool True,
          created_at = 5, updated_at = 5\<rparr>],
        clients_id_seq = 2, queries = []\<rparr>))
   = [\<lparr>client_id = 1, full_name = JStr ''Ann B.'', email = JNull,
          phone = JNull, location = JNull, service_type = JNull, serial_number = JNull,
          price = JNull, supporter = JNull, has_bonus = JNull,
          created_at = 5, updated_at = 9\<rparr>]"
proof -
  let ?s = "\<lparr>clients = [\<lparr>client_id = 1, full_name = JStr ''Ann'', email = JStr ''ann@x.com'',
          phone = JNull, location = JNull, service_type = JNull, serial_number = JNull,
          price = JNull, supporter = JNull, has_bonus = JBool True,
          created_at = 5, updated_at = 5\<rparr>],
        clients_id_seq = 2, queries = []\<rparr>"
  have ok: "status (fst (update_client None 9 ''1'' [(''full_name'', JStr ''Ann B.'')] ?s)) = 200"
    by (simp add: update_ann)
  from update_replaces_all_fields_pg [OF ok] show ?thesis
    by (simp add: int4in_1 field_def)
qed

text \<open>
  The update of the Supabase variant hands the body to the client as it is, and the
  service writes the columns the body names: a field left out keeps its value.
\<close>

theorem update_supabase_patch_counterexample:
  "sb_update_client supabase ''1'' [(''full_name'', JStr ''Ann B.'')]
     [[(''id'', JNum 1), (''full_name'', JStr ''Ann''), (''email'', JStr ''ann@x.com'')]]
   = (\<lparr>status = 200,
       body = JObj [(''message'', JStr (check_mark @ '' Client updated successfully'')),
         (''client'', JObj [(''id'', JNum 1), (''full_name'', JStr ''Ann B.''),
                           (''email'', JStr ''ann@x.com'')])]\<rparr>,
      [[(''id'', JNum 1), (''full_name'', JStr ''Ann B.''), (''email'', JStr ''ann@x.com'')]])"
  by (simp add: sb_update_client_def supabase_def has_id_def int4in_1 patch_row_def
      rows_result_def respond_first_def index0_def json_ok_def Let_def)












end
